theory Spec2Isabelle
  imports Main
begin

section \<open>Homie: identity and access control\<close>

text \<open>
  A shallow embedding of the identity and access-control code of the Homie Flask
  application: \<^verbatim>\<open>config.py\<close> (the access-control lists), \<^verbatim>\<open>app.py\<close> (the login
  route), \<^verbatim>\<open>authentication.py\<close> (the route guards) and \<^verbatim>\<open>models.py\<close> (schema
  initialisation and \<^verbatim>\<open>UserModel.get_or_create_supabase_user\<close>).

  Python exceptions are values of the type \<open>exn\<close>; a function that may raise returns
  \<open>exn + 'a\<close> with \<open>Inl\<close> for the exception. Strings are \<open>char list\<close>; case mapping
  and whitespace are those of ASCII, the alphabet of e-mail addresses.
\<close>

subsection \<open>Exceptions\<close>

datatype exn =
    AttributeError string
  | OperationalError string
  | IntegrityError string
  | DatabaseError string
  | OtherError string

subsection \<open>Strings: \<^verbatim>\<open>str.lower\<close>, \<^verbatim>\<open>str.strip\<close>, \<^verbatim>\<open>str.split\<close>, \<^verbatim>\<open>in\<close>\<close>

definition char_lower :: "char \<Rightarrow> char" where
  "char_lower c =
     (let n = (of_char c :: nat) in if 65 \<le> n \<and> n \<le> 90 then char_of (n + 32) else c)"

definition str_lower :: "string \<Rightarrow> string" where
  "str_lower s = map char_lower s"

definition is_space :: "char \<Rightarrow> bool" where
  "is_space c =
     (let n = (of_char c :: nat) in (9 \<le> n \<and> n \<le> 13) \<or> (28 \<le> n \<and> n \<le> 32))"

definition strip :: "string \<Rightarrow> string" where
  "strip s = rev (dropWhile is_space (rev (dropWhile is_space s)))"

text \<open>\<^verbatim>\<open>s.split(sep)\<close> for a one-character separator: never the empty list.\<close>

fun split_on :: "char \<Rightarrow> string \<Rightarrow> string list" where
  "split_on sep [] = [[]]"
| "split_on sep (c # cs) =
     (if c = sep then [] # split_on sep cs
      else (case split_on sep cs of
              [] \<Rightarrow> [[c]]
            | w # ws \<Rightarrow> (c # w) # ws))"



subsection \<open>\<^verbatim>\<open>config.py\<close>: the access-control lists\<close>

text \<open>
  The two environment variables \<^verbatim>\<open>load_access_control\<close> reads; \<open>None\<close> is an unset
  variable, for which \<^verbatim>\<open>os.getenv(name, "")\<close> gives the empty string.
\<close>

record environ =
  ADMIN_EMAILS :: "string option"
  ALLOWED_EMAILS :: "string option"

definition getenv :: "string option \<Rightarrow> string \<Rightarrow> string" where
  "getenv v dflt = (case v of None \<Rightarrow> dflt | Some s \<Rightarrow> s)"

record access_control =
  allowed_emails :: "string list"
  admin_emails :: "string list"

definition load_access_control :: "environ \<Rightarrow> access_control" where
  "load_access_control env =
     (let config = \<lparr>allowed_emails = [], admin_emails = []\<rparr>;
          admin_emails_str = getenv (ADMIN_EMAILS env) [];
          config =
            (if admin_emails_str \<noteq> []
             then config\<lparr>admin_emails :=
                    map (\<lambda>email. str_lower (strip email)) (split_on (CHR '','') admin_emails_str)\<rparr>
             else config);
          allowed_emails_str = getenv (ALLOWED_EMAILS env) [];
          config =
            (if allowed_emails_str \<noteq> []
             then config\<lparr>allowed_emails :=
                    map (\<lambda>email. str_lower (strip email)) (split_on (CHR '','') allowed_emails_str)\<rparr>
             else config)
      in config)"

subsection \<open>\<^verbatim>\<open>app.py\<close>: the login route\<close>

text \<open>
  The identity the provider asserts (\<^verbatim>\<open>res.user\<close>): its id, its e-mail and the optional
  metadata dictionary.
\<close>

record supabase_user =
  su_id :: string
  su_email :: string
  su_user_metadata :: "(string \<times> string) list option"

text \<open>
  \<^verbatim>\<open>res\<close> of \<^verbatim>\<open>sign_in_with_password\<close>: the user, if any, and the access token of
  \<^verbatim>\<open>res.session\<close> (\<open>None\<close> when there is no session object).
\<close>

record auth_response =
  res_user :: "supabase_user option"
  res_access_token :: "string option"

text \<open>
  The Supabase client as the route uses it: \<^verbatim>\<open>auth.sign_in_with_password\<close> on the
  posted e-mail and password (either may be missing from the form), and whether
  \<^verbatim>\<open>auth.sign_out\<close> raises.
\<close>

record supabase_client =
  sign_in_with_password :: "string option \<Rightarrow> string option \<Rightarrow> exn + auth_response"
  sign_out :: "exn option"

datatype provider_call = SignInWithPassword "string option" "string option" | SignOut

text \<open>
  The row \<^verbatim>\<open>UserModel().get_or_create_supabase_user\<close> returns to the route. The route
  takes \<^verbatim>\<open>UserModel\<close> from the module \<^verbatim>\<open>database\<close>, which is not among the sources, so
  the call is a parameter of \<open>login\<close>.
\<close>

record local_user =
  lu_id :: nat
  lu_supabase_id :: "string option"
  lu_username :: "string option"
  lu_email :: string
  lu_full_name :: "string option"
  lu_is_admin :: bool

record session_user =
  s_id :: nat
  s_supabase_id :: "string option"
  s_username :: "string option"
  s_email :: string
  s_full_name :: "string option"
  s_is_admin :: bool
  s_access_token :: string

datatype http_method = GET | POST

datatype response = Redirect string | RenderTemplate string

record login_form =
  form_email :: "string option"
  form_password :: "string option"

record login_result =
  response :: response
  session :: "session_user option"
  flashes :: "(string \<times> string) list"
  provider_calls :: "provider_call list"
  reconciled :: "supabase_user list"

text \<open>
  Lines 173--180 of \<^verbatim>\<open>app.py\<close>: \<open>True\<close> when the login is denied. \<^verbatim>\<open>email\<close> is
  \<^verbatim>\<open>request.form.get("email")\<close>; \<^verbatim>\<open>email.lower()\<close> on a missing field raises, but only
  when the allow-list is non-empty (\<^verbatim>\<open>and\<close> short-circuits).
\<close>

definition login_denied :: "access_control \<Rightarrow> string option \<Rightarrow> exn + bool" where
  "login_denied access_control email =
     (let allowed = allowed_emails access_control;
          admins = admin_emails access_control
      in if allowed = [] then Inr False
         else (case email of
                 None \<Rightarrow> Inl (AttributeError ''lower'')
               | Some e \<Rightarrow>
                   if str_lower e \<notin> set (map str_lower allowed)
                   then (if str_lower e \<notin> set (map str_lower admins)
                         then Inr True else Inr False)
                   else Inr False))"

text \<open>
  The body of the \<^verbatim>\<open>try\<close> block of \<^verbatim>\<open>login\<close>. It returns the provider calls made and
  the identities handed to reconciliation, together with: an exception (caught by the
  route), \<open>None\<close> when the block falls through (\<^verbatim>\<open>res.user\<close> is falsy), or the response
  returned from inside the block with the session and the flashed messages.
\<close>

definition login_try ::
  "supabase_client \<Rightarrow> access_control \<Rightarrow> (supabase_user \<Rightarrow> access_control \<Rightarrow> exn + local_user) \<Rightarrow>
   login_form \<Rightarrow>
   (exn + (response \<times> session_user option \<times> (string \<times> string) list) option) \<times>
   provider_call list \<times> supabase_user list" where
  "login_try client access_control get_or_create form =
     (let email = form_email form; password = form_password form;
          calls = [SignInWithPassword email password]
      in case sign_in_with_password client email password of
           Inl e \<Rightarrow> (Inl e, calls, [])
         | Inr res \<Rightarrow>
             (case res_user res of
                None \<Rightarrow> (Inr None, calls, [])
              | Some user \<Rightarrow>
                  (case login_denied access_control email of
                     Inl e \<Rightarrow> (Inl e, calls, [])
                   | Inr True \<Rightarrow>
                       (case sign_out client of
                          Some e \<Rightarrow> (Inl e, calls @ [SignOut], [])
                        | None \<Rightarrow>
                            (Inr (Some (RenderTemplate ''login.html'', None,
                                        [(''Access denied. You are not authorized.'', ''error'')])),
                             calls @ [SignOut], []))
                   | Inr False \<Rightarrow>
                       (case get_or_create user access_control of
                          Inl e \<Rightarrow> (Inl e, calls, [user])
                        | Inr local_user \<Rightarrow>
                            (case res_access_token res of
                               None \<Rightarrow> (Inl (AttributeError ''access_token''), calls, [user])
                             | Some token \<Rightarrow>
                                 (Inr (Some (Redirect ''dashboard'',
                                        Some \<lparr>s_id = lu_id local_user,
                                              s_supabase_id = lu_supabase_id local_user,
                                              s_username = lu_username local_user,
                                              s_email = lu_email local_user,
                                              s_full_name = lu_full_name local_user,
                                              s_is_admin = lu_is_admin local_user,
                                              s_access_token = token\<rparr>,
                                        [(''Welcome back, '' @
                                            (case lu_full_name local_user of
                                               None \<Rightarrow> ''None'' | Some n \<Rightarrow> n) @ ''!'',
                                          ''success'')])),
                                  calls, [user]))))))"

text \<open>
  The route \<^verbatim>\<open>/login\<close>. \<open>supabase\<close> is the client of the enclosing \<^verbatim>\<open>create_app\<close>
  (\<open>None\<close> when it could not be initialised), \<open>access_control\<close> the lists loaded at
  start-up, \<open>sess\<close> the entry \<^verbatim>\<open>"user"\<close> of the session, if present.
\<close>

definition login ::
  "supabase_client option \<Rightarrow> access_control \<Rightarrow>
   (supabase_user \<Rightarrow> access_control \<Rightarrow> exn + local_user) \<Rightarrow>
   session_user option \<Rightarrow> http_method \<Rightarrow> login_form \<Rightarrow> login_result" where
  "login supabase access_control get_or_create sess method form =
     (case sess of
        Some u \<Rightarrow>
          \<lparr>response = Redirect ''dashboard'', session = Some u, flashes = [],
           provider_calls = [], reconciled = []\<rparr>
      | None \<Rightarrow>
          (if method = POST then
             (case supabase of
                None \<Rightarrow>
                  \<lparr>response = RenderTemplate ''login.html'', session = None,
                   flashes = [(''Authentication service unavailable'', ''error'')],
                   provider_calls = [], reconciled = []\<rparr>
              | Some client \<Rightarrow>
                  (case login_try client access_control get_or_create form of
                     (Inr (Some (resp, sess', fl)), calls, recs) \<Rightarrow>
                       \<lparr>response = resp, session = sess', flashes = fl,
                        provider_calls = calls, reconciled = recs\<rparr>
                   | (Inr None, calls, recs) \<Rightarrow>
                       \<lparr>response = RenderTemplate ''login.html'', session = None, flashes = [],
                        provider_calls = calls, reconciled = recs\<rparr>
                   | (Inl e, calls, recs) \<Rightarrow>
                       \<lparr>response = RenderTemplate ''login.html'', session = None,
                        flashes = [(''Invalid email or password'', ''error'')],
                        provider_calls = calls, reconciled = recs\<rparr>))
           else
             \<lparr>response = RenderTemplate ''login.html'', session = None, flashes = [],
              provider_calls = [], reconciled = []\<rparr>))"

subsection \<open>\<^verbatim>\<open>authentication.py\<close>: the feature guard\<close>

datatype log_level = DEBUG | INFO | WARNING | ERROR

type_synonym log_entry = "log_level \<times> string"

text \<open>
  What a guard does with a request: call the protected view, redirect, or let an
  exception escape to the framework.
\<close>

datatype guard_outcome = Proceed | RedirectTo string | Raised exn

text \<open>
  \<^verbatim>\<open>feature_required(feature_name)\<close>. The guard imports
  \<^verbatim>\<open>get_user_feature_visibility\<close> from the module \<^verbatim>\<open>database\<close>, which is not among the
  sources: the lookup is a parameter, and it may raise. The warning is logged without
  the user id.
\<close>

definition feature_required ::
  "(nat \<Rightarrow> string \<Rightarrow> exn + bool) \<Rightarrow> string \<Rightarrow> session_user option \<Rightarrow>
   guard_outcome \<times> log_entry list" where
  "feature_required get_user_feature_visibility feature_name sess =
     (case sess of
        None \<Rightarrow> (RedirectTo ''login'', [])
      | Some user \<Rightarrow>
          (let user_id = s_id user
           in case get_user_feature_visibility user_id feature_name of
                Inl e \<Rightarrow> (Raised e, [])
              | Inr visible \<Rightarrow>
                  if \<not> visible
                  then (RedirectTo ''unauthorized'',
                        [(WARNING, ''User attempted to access disabled feature: '' @ feature_name)])
                  else (Proceed, [])))"

subsection \<open>\<^verbatim>\<open>models.py\<close>: schema initialisation and migrations\<close>




















subsection \<open>\<^verbatim>\<open>models.py\<close>: the users table and its connection\<close>

text \<open>
  A row of \<^verbatim>\<open>users\<close>. \<^verbatim>\<open>email\<close> is \<^verbatim>\<open>NOT NULL\<close>; \<^verbatim>\<open>supabase_id\<close> is \<^verbatim>\<open>NULL\<close> (\<open>None\<close>) in
  the rows of an older installation, to which the migration
  \<^verbatim>\<open>ALTER TABLE users ADD COLUMN supabase_id TEXT\<close> added the column.
\<close>

type_synonym timestamp = string

record user_row =
  u_id :: nat
  u_username :: "string option"
  u_email :: string
  u_full_name :: "string option"
  u_is_admin :: bool
  u_supabase_id :: "string option"
  u_last_login :: "timestamp option"
  u_created_at :: "timestamp option"
  u_last_activity :: "timestamp option"

text \<open>
  The database file: the rows of \<^verbatim>\<open>users\<close> in rowid order and the \<^verbatim>\<open>AUTOINCREMENT\<close>
  counter of the table.
\<close>

record database =
  users :: "user_row list"
  users_seq :: nat

datatype sql =
    SelectBySupabaseId string
  | SelectByEmail string
  | SelectById nat
  | UpdateSupabaseId string nat
  | UpdateLogin timestamp string bool nat
  | InsertUser string string string string bool timestamp timestamp
  | Commit
  | Close

text \<open>
  A \<^verbatim>\<open>sqlite3\<close> connection: the committed file, the connection's own view of it (the
  file with the connection's uncommitted changes), whether \<^verbatim>\<open>close\<close> was called, and the
  statements executed on it, in order.
\<close>

record connection =
  db_file :: database
  working :: database
  closed :: bool
  executed :: "sql list"

definition get_connection :: "database \<Rightarrow> connection" where
  "get_connection db = \<lparr>db_file = db, working = db, closed = False, executed = []\<rparr>"

definition commit :: "connection \<Rightarrow> connection" where
  "commit conn = conn\<lparr>db_file := working conn, executed := executed conn @ [Commit]\<rparr>"

text \<open>Closing discards what was not committed.\<close>

definition close :: "connection \<Rightarrow> connection" where
  "close conn =
     conn\<lparr>working := db_file conn, closed := True, executed := executed conn @ [Close]\<rparr>"

text \<open>
  \<^verbatim>\<open>SELECT * FROM users WHERE col = ?\<close> with \<^verbatim>\<open>fetchone()\<close>: the first matching row, a
  snapshot of its values. A \<^verbatim>\<open>NULL\<close> column matches nothing.
\<close>

definition select_by_supabase_id :: "connection \<Rightarrow> string \<Rightarrow> user_row option \<times> connection" where
  "select_by_supabase_id conn sid =
     (find (\<lambda>r. u_supabase_id r = Some sid) (users (working conn)),
      conn\<lparr>executed := executed conn @ [SelectBySupabaseId sid]\<rparr>)"

definition select_by_email :: "connection \<Rightarrow> string \<Rightarrow> user_row option \<times> connection" where
  "select_by_email conn e =
     (find (\<lambda>r. u_email r = e) (users (working conn)),
      conn\<lparr>executed := executed conn @ [SelectByEmail e]\<rparr>)"

definition select_by_id :: "connection \<Rightarrow> nat \<Rightarrow> user_row option \<times> connection" where
  "select_by_id conn uid =
     (find (\<lambda>r. u_id r = uid) (users (working conn)),
      conn\<lparr>executed := executed conn @ [SelectById uid]\<rparr>)"

text \<open>
  \<^verbatim>\<open>UPDATE users SET supabase_id = ? WHERE id = ?\<close>. The column is \<^verbatim>\<open>UNIQUE\<close>: the
  statement fails when it would give a row the value another row holds.
\<close>

definition update_supabase_id :: "connection \<Rightarrow> string \<Rightarrow> nat \<Rightarrow> exn option \<times> connection" where
  "update_supabase_id conn sid uid =
     (let db = working conn;
          conn = conn\<lparr>executed := executed conn @ [UpdateSupabaseId sid uid]\<rparr>
      in if list_ex (\<lambda>r. u_id r = uid) (users db)
            \<and> list_ex (\<lambda>r. u_id r \<noteq> uid \<and> u_supabase_id r = Some sid) (users db)
         then (Some (IntegrityError ''UNIQUE constraint failed: users.supabase_id''), conn)
         else (None,
               conn\<lparr>working := db\<lparr>users :=
                 map (\<lambda>r. if u_id r = uid then r\<lparr>u_supabase_id := Some sid\<rparr> else r) (users db)\<rparr>\<rparr>))"

text \<open>\<^verbatim>\<open>UPDATE users SET last_login = ?, full_name = ?, is_admin = ? WHERE id = ?\<close>.\<close>

definition update_login :: "connection \<Rightarrow> timestamp \<Rightarrow> string \<Rightarrow> bool \<Rightarrow> nat \<Rightarrow> connection" where
  "update_login conn now full_name is_admin uid =
     (let db = working conn
      in conn\<lparr>working := db\<lparr>users :=
                 map (\<lambda>r. if u_id r = uid
                          then r\<lparr>u_last_login := Some now, u_full_name := Some full_name,
                                 u_is_admin := is_admin\<rparr>
                          else r) (users db)\<rparr>,
              executed := executed conn @ [UpdateLogin now full_name is_admin uid]\<rparr>)"

text \<open>
  \<^verbatim>\<open>INSERT INTO users (username, email, full_name, supabase_id, is_admin, last_login,
  created_at) VALUES (...)\<close>. \<^verbatim>\<open>email\<close> and \<^verbatim>\<open>supabase_id\<close> are \<^verbatim>\<open>UNIQUE\<close>; the new rowid is
  one more than the largest the table has had.
\<close>

definition insert_user ::
  "connection \<Rightarrow> string \<Rightarrow> string \<Rightarrow> string \<Rightarrow> string \<Rightarrow> bool \<Rightarrow> timestamp \<Rightarrow> timestamp \<Rightarrow>
   exn option \<times> connection" where
  "insert_user conn username email full_name supabase_id is_admin last_login created_at =
     (let db = working conn;
          conn = conn\<lparr>executed := executed conn @
                   [InsertUser username email full_name supabase_id is_admin last_login created_at]\<rparr>
      in if list_ex (\<lambda>r. u_supabase_id r = Some supabase_id) (users db)
         then (Some (IntegrityError ''UNIQUE constraint failed: users.supabase_id''), conn)
         else if list_ex (\<lambda>r. u_email r = email) (users db)
         then (Some (IntegrityError ''UNIQUE constraint failed: users.email''), conn)
         else (let new_id = Suc (fold max (map u_id (users db)) (users_seq db))
               in (None,
                   conn\<lparr>working :=
                     \<lparr>users = users db @
                        [\<lparr>u_id = new_id, u_username = Some username, u_email = email,
                          u_full_name = Some full_name, u_is_admin = is_admin,
                          u_supabase_id = Some supabase_id, u_last_login = Some last_login,
                          u_created_at = Some created_at, u_last_activity = None\<rparr>],
                      users_seq = new_id\<rparr>\<rparr>)))"

text \<open>
  \<^verbatim>\<open>conn.lastrowid\<close>: \<^verbatim>\<open>lastrowid\<close> is an attribute of a \<^verbatim>\<open>sqlite3.Cursor\<close>; a
  \<^verbatim>\<open>sqlite3.Connection\<close> has none, and reading it raises \<^verbatim>\<open>AttributeError\<close>.
\<close>

definition lastrowid :: "connection \<Rightarrow> exn + nat" where
  "lastrowid conn =
     Inl (AttributeError ''sqlite3.Connection object has no attribute lastrowid'')"

subsection \<open>\<^verbatim>\<open>models.py\<close>: \<^verbatim>\<open>UserModel.get_or_create_supabase_user\<close>\<close>

definition dict_get :: "(string \<times> string) list \<Rightarrow> string \<Rightarrow> string \<Rightarrow> string" where
  "dict_get d k dflt = (case map_of d k of None \<Rightarrow> dflt | Some v \<Rightarrow> v)"

text \<open>\<^verbatim>\<open>email.split("@")[0]\<close>; the split of a string is never empty.\<close>

definition local_part :: "string \<Rightarrow> string" where
  "local_part email = (case split_on (CHR ''@'') email of [] \<Rightarrow> [] | w # ws \<Rightarrow> w)"

text \<open>
  Lines 196--205, then 232--233: the branch \<^verbatim>\<open>if user:\<close>. The row returned is \<open>user\<close>,
  the snapshot fetched before the \<^verbatim>\<open>UPDATE\<close>.
\<close>

definition update_path ::
  "connection \<Rightarrow> user_row \<Rightarrow> timestamp \<Rightarrow> string \<Rightarrow> bool \<Rightarrow>
   (exn + user_row option) \<times> connection" where
  "update_path conn user now full_name is_admin =
     (let conn = update_login conn now full_name is_admin (u_id user);
          conn = commit conn;
          conn = close conn
      in (Inr (Some user), conn))"

text \<open>
  Lines 207--230, then 232--233: the branch \<^verbatim>\<open>else:\<close>. Nothing catches an exception
  here, so one raised by the \<^verbatim>\<open>INSERT\<close> or by \<^verbatim>\<open>conn.lastrowid\<close> leaves the function
  with the connection as it is at that point.
\<close>

definition create_path ::
  "connection \<Rightarrow> string \<Rightarrow> string \<Rightarrow> string \<Rightarrow> string \<Rightarrow> bool \<Rightarrow> timestamp \<Rightarrow> timestamp \<Rightarrow>
   (exn + user_row option) \<times> connection" where
  "create_path conn username email full_name supabase_id is_admin now1 now2 =
     (case insert_user conn username email full_name supabase_id is_admin now1 now2 of
        (Some e, conn) \<Rightarrow> (Inl e, conn)
      | (None, conn) \<Rightarrow>
          (case lastrowid conn of
             Inl e \<Rightarrow> (Inl e, conn)
           | Inr user_id \<Rightarrow>
               (let conn = commit conn;
                    (user, conn) = select_by_id conn user_id;
                    conn = close conn
                in (Inr user, conn))))"

text \<open>
  The whole method, on the database file \<open>db\<close>. \<open>now1\<close> and \<open>now2\<close> are the values of
  the first and the second \<^verbatim>\<open>datetime.now().isoformat()\<close> of the call. The result is the
  returned row (\<open>None\<close> for Python's \<^verbatim>\<open>None\<close>) or the exception that escapes, and the
  connection as the call leaves it; \<open>db_file\<close> of that connection is the file the next
  call opens.
\<close>

definition get_or_create_supabase_user ::
  "database \<Rightarrow> supabase_user \<Rightarrow> access_control \<Rightarrow> timestamp \<Rightarrow> timestamp \<Rightarrow>
   (exn + user_row option) \<times> connection" where
  "get_or_create_supabase_user db supabase_user access_control now1 now2 =
     (let conn = get_connection db;
          email = su_email supabase_user;
          supabase_id = su_id supabase_user;
          meta = (case su_user_metadata supabase_user of None \<Rightarrow> [] | Some m \<Rightarrow> m);
          full_name = dict_get meta ''full_name'' (dict_get meta ''name'' (local_part email));
          username = dict_get meta ''username'' (local_part email);
          is_admin = (str_lower email \<in> set (admin_emails access_control));
          (user, conn) = select_by_supabase_id conn supabase_id
      in case user of
           Some u \<Rightarrow> update_path conn u now1 full_name is_admin
         | None \<Rightarrow>
             (let (user, conn) = select_by_email conn email
              in case user of
                   None \<Rightarrow>
                     create_path conn username email full_name supabase_id is_admin now1 now2
                 | Some u \<Rightarrow>
                     (case update_supabase_id conn supabase_id (u_id u) of
                        (Some e, conn) \<Rightarrow> (Inl e, conn)
                      | (None, conn) \<Rightarrow>
                          (let conn = commit conn;
                               (user, conn) = select_by_id conn (u_id u)
                           in case user of
                                Some u' \<Rightarrow> update_path conn u' now1 full_name is_admin
                              | None \<Rightarrow>
                                  create_path conn username email full_name supabase_id
                                    is_admin now1 now2))))"

subsection \<open>Notions used in the properties\<close>






text \<open>
  The values \<^verbatim>\<open>get_or_create_supabase_user\<close> derives from the identity and the policy
  (lines 164--172), and what its two \<^verbatim>\<open>UPDATE\<close> statements do to one row.
\<close>

definition full_name_of :: "supabase_user \<Rightarrow> string" where
  "full_name_of su =
     (let meta = (case su_user_metadata su of None \<Rightarrow> [] | Some m \<Rightarrow> m)
      in dict_get meta ''full_name'' (dict_get meta ''name'' (local_part (su_email su))))"

definition username_of :: "supabase_user \<Rightarrow> string" where
  "username_of su =
     (let meta = (case su_user_metadata su of None \<Rightarrow> [] | Some m \<Rightarrow> m)
      in dict_get meta ''username'' (local_part (su_email su)))"

definition is_admin_of :: "supabase_user \<Rightarrow> access_control \<Rightarrow> bool" where
  "is_admin_of su ac = (str_lower (su_email su) \<in> set (admin_emails ac))"

definition set_login :: "timestamp \<Rightarrow> string \<Rightarrow> bool \<Rightarrow> nat \<Rightarrow> user_row \<Rightarrow> user_row" where
  "set_login now full_name is_admin uid r =
     (if u_id r = uid
      then r\<lparr>u_last_login := Some now, u_full_name := Some full_name, u_is_admin := is_admin\<rparr>
      else r)"

definition set_supabase_id :: "string \<Rightarrow> nat \<Rightarrow> user_row \<Rightarrow> user_row" where
  "set_supabase_id sid uid r = (if u_id r = uid then r\<lparr>u_supabase_id := Some sid\<rparr> else r)"

text \<open>
  Calls of \<^verbatim>\<open>get_or_create_supabase_user\<close> one after the other on the same store: each
  opens the file the one before left.
\<close>

type_synonym call = "supabase_user \<times> access_control \<times> timestamp \<times> timestamp"

fun reconcile_seq :: "database \<Rightarrow> call list \<Rightarrow> ((exn + user_row option) \<times> connection) list" where
  "reconcile_seq db [] = []"
| "reconcile_seq db ((su, ac, now1, now2) # calls) =
     (let r = get_or_create_supabase_user db su ac now1 now2
      in r # reconcile_seq (db_file (snd r)) calls)"

text \<open>
  The columns of a row that reconciliation must leave alone: everything but
  \<^verbatim>\<open>full_name\<close>, \<^verbatim>\<open>is_admin\<close>, \<^verbatim>\<open>last_login\<close> and \<^verbatim>\<open>supabase_id\<close>.
\<close>

definition frame ::
  "user_row \<Rightarrow> nat \<times> string option \<times> string \<times> timestamp option \<times> timestamp option" where
  "frame r = (u_id r, u_username r, u_email r, u_created_at r, u_last_activity r)"

subsection \<open>Concrete inputs\<close>

text \<open>An allow-list of two guests and one administrator who is not on it.\<close>

definition deny_env :: environ where
  "deny_env =
     \<lparr>ADMIN_EMAILS = Some ''Boss@X.com'', ALLOWED_EMAILS = Some '' a@x.com ,B@x.com''\<rparr>"

definition boss :: supabase_user where
  "boss = \<lparr>su_id = ''u-boss'', su_email = ''boss@x.com'', su_user_metadata = None\<rparr>"

definition boss_client :: supabase_client where
  "boss_client =
     \<lparr>sign_in_with_password =
        (\<lambda>e p. Inr \<lparr>res_user = Some boss, res_access_token = Some ''tok''\<rparr>),
      sign_out = None\<rparr>"

definition failing_user_model :: "supabase_user \<Rightarrow> access_control \<Rightarrow> exn + local_user" where
  "failing_user_model u ac = Inl (OtherError ''reconciliation failed'')"

text \<open>
  Stores: an empty one; one where Alice is linked to the external id \<^verbatim>\<open>u1\<close> and is not
  an administrator; one of an older installation, where her row has no external id.
  \<open>race_conn\<close> is a connection that sees Alice's row, as the second of two simultaneous
  first logins does once the first has committed.
\<close>

definition empty_db :: database where
  "empty_db = \<lparr>users = [], users_seq = 0\<rparr>"

definition new_identity :: supabase_user where
  "new_identity = \<lparr>su_id = ''u1'', su_email = ''a@x.com'', su_user_metadata = None\<rparr>"

definition open_policy :: access_control where
  "open_policy = \<lparr>allowed_emails = [], admin_emails = []\<rparr>"

definition admin_policy :: access_control where
  "admin_policy = \<lparr>allowed_emails = [], admin_emails = [''a@x.com'']\<rparr>"

definition alice_row :: user_row where
  "alice_row =
     \<lparr>u_id = 1, u_username = Some ''a'', u_email = ''a@x.com'', u_full_name = Some ''Alice'',
      u_is_admin = False, u_supabase_id = Some ''u1'', u_last_login = Some ''t0'',
      u_created_at = Some ''t0'', u_last_activity = None\<rparr>"

definition alice_db :: database where
  "alice_db = \<lparr>users = [alice_row], users_seq = 1\<rparr>"

definition legacy_row :: user_row where
  "legacy_row =
     \<lparr>u_id = 1, u_username = Some ''a'', u_email = ''a@x.com'', u_full_name = Some ''Alice'',
      u_is_admin = False, u_supabase_id = None, u_last_login = None,
      u_created_at = Some ''t0'', u_last_activity = None\<rparr>"

definition legacy_db :: database where
  "legacy_db = \<lparr>users = [legacy_row], users_seq = 1\<rparr>"

definition unreachable_store :: "nat \<Rightarrow> string \<Rightarrow> exn + bool" where
  "unreachable_store user_id feature_name = Inl (OperationalError ''unable to open database file'')"

definition alice_session :: session_user where
  "alice_session =
     \<lparr>s_id = 1, s_supabase_id = Some ''u1'', s_username = Some ''a'', s_email = ''a@x.com'',
      s_full_name = Some ''Alice'', s_is_admin = False, s_access_token = ''tok''\<rparr>"



section \<open>Properties\<close>

subsection \<open>The login route\<close>

lemma char_lower_idem: "char_lower (char_lower c) = char_lower c"
  by (auto simp: char_lower_def Let_def)

lemma str_lower_idem: "str_lower (str_lower s) = str_lower s"
  by (simp add: str_lower_def char_lower_idem)

lemma loaded_allowed_lower:
  "map str_lower (allowed_emails (load_access_control env)) = allowed_emails (load_access_control env)"
  by (simp add: load_access_control_def Let_def str_lower_idem)

lemma loaded_admin_lower:
  "map str_lower (admin_emails (load_access_control env)) = admin_emails (load_access_control env)"
  by (simp add: load_access_control_def Let_def str_lower_idem)

lemma login_denied_Some:
  "login_denied ac (Some e) =
     Inr (allowed_emails ac \<noteq> [] \<and> str_lower e \<notin> set (map str_lower (allowed_emails ac))
          \<and> str_lower e \<notin> set (map str_lower (admin_emails ac)))"
  by (simp add: login_denied_def Let_def)

lemma reconciled_login:
  assumes "sign_in_with_password client (Some e) pw = Inr res" and "res_user res = Some user"
  shows "reconciled (login (Some client) ac goc None POST \<lparr>form_email = Some e, form_password = pw\<rparr>)
         = (if login_denied ac (Some e) = Inr False then [user] else [])"
  using assms
  by (auto simp: login_def login_try_def login_denied_Some Let_def split: option.splits sum.splits bool.splits)

text \<open>
  Claim C1. For every e-mail \<open>E\<close> and every policy loaded by \<open>load_access_control\<close>:
  the check of the login route lets \<open>E\<close> through if and only if the allow-list is empty,
  or \<open>lower E\<close> is in the allow-list, or \<open>lower E\<close> is in the admin list. Stated twice:
  for the check itself (\<open>login_denied\<close> answers \<open>False\<close>), and for the route, which hands
  the identity the provider returned to reconciliation exactly in that case. So an
  administrator missing from a non-empty allow-list is let in, and with an empty
  allow-list everybody the provider authenticates is.
\<close>

theorem login_gate_authorizes_iff:
  assumes "sign_in_with_password client (Some E) pw = Inr res" and "res_user res = Some user"
  shows "login_denied (load_access_control env) (Some E) =
           Inr (\<not> (allowed_emails (load_access_control env) = []
                   \<or> str_lower E \<in> set (allowed_emails (load_access_control env))
                   \<or> str_lower E \<in> set (admin_emails (load_access_control env))))
       \<and> (reconciled (login (Some client) (load_access_control env) get_or_create None POST
               \<lparr>form_email = Some E, form_password = pw\<rparr>) = [user])
         = (allowed_emails (load_access_control env) = []
            \<or> str_lower E \<in> set (allowed_emails (load_access_control env))
            \<or> str_lower E \<in> set (admin_emails (load_access_control env)))"
  unfolding reconciled_login [OF assms] login_denied_Some loaded_allowed_lower loaded_admin_lower
  by auto

lemma deny_env_loaded:
  "load_access_control deny_env =
     \<lparr>allowed_emails = [''a@x.com'', ''b@x.com''], admin_emails = [''boss@x.com'']\<rparr>"
  by code_simp

lemma lower_BOSS: "str_lower ''BOSS@x.com'' = ''boss@x.com''"
  by code_simp

text \<open>
  The theorem at the policy \<open>deny_env\<close>: the administrator \<^verbatim>\<open>BOSS@x.com\<close>, absent from the
  non-empty allow-list, is handed to reconciliation.
\<close>

theorem login_gate_authorizes_iff_witness:
  "reconciled (login (Some boss_client) (load_access_control deny_env) failing_user_model None POST
       \<lparr>form_email = Some ''BOSS@x.com'', form_password = Some ''pw''\<rparr>) = [boss]
   \<and> allowed_emails (load_access_control deny_env) \<noteq> []
   \<and> str_lower ''BOSS@x.com'' \<notin> set (allowed_emails (load_access_control deny_env))
   \<and> str_lower ''BOSS@x.com'' \<in> set (admin_emails (load_access_control deny_env))"
proof -
  have h1: "sign_in_with_password boss_client (Some ''BOSS@x.com'') (Some ''pw'')
              = Inr \<lparr>res_user = Some boss, res_access_token = Some ''tok''\<rparr>"
    by (simp add: boss_client_def)
  have h2: "res_user \<lparr>res_user = Some boss, res_access_token = Some ''tok''\<rparr> = Some boss"
    by simp
  show ?thesis
    using login_gate_authorizes_iff [OF h1 h2, of deny_env failing_user_model]
    by (simp add: deny_env_loaded lower_BOSS)
qed

text \<open>
  Claim C10. A request to \<^verbatim>\<open>/login\<close>, \<^verbatim>\<open>GET\<close> or \<^verbatim>\<open>POST\<close>, with a user in the session is
  answered by a redirect to the dashboard: the session is left as it is, nothing is
  flashed, the provider is not called and no identity is reconciled, whatever the
  client, the access-control lists and the form are.
\<close>

theorem login_with_session_redirects:
  "login supabase access_control get_or_create (Some u) method form =
     \<lparr>response = Redirect ''dashboard'', session = Some u, flashes = [],
      provider_calls = [], reconciled = []\<rparr>"
  by (simp add: login_def)

subsection \<open>The feature guard\<close>

text \<open>
  Claim C7, as amended. For an authenticated request the feature guard calls the
  protected view exactly when the lookup returns true; when the lookup raises, the
  guard catches nothing: the exception leaves the guard and nothing is logged.
\<close>

theorem feature_guard_outcome:
  "(fst (feature_required get_user_feature_visibility feature_name (Some user)) = Proceed)
     = (get_user_feature_visibility (s_id user) feature_name = Inr True)
   \<and> (\<forall>e. get_user_feature_visibility (s_id user) feature_name = Inl e \<longrightarrow>
         feature_required get_user_feature_visibility feature_name (Some user) = (Raised e, []))"
  by (auto simp: feature_required_def Let_def split: sum.splits)

text \<open>The theorem for a lookup that cannot open its store.\<close>

theorem feature_guard_outcome_witness:
  "unreachable_store (s_id alice_session) ''bills''
     = Inl (OperationalError ''unable to open database file'')
   \<and> feature_required unreachable_store ''bills'' (Some alice_session)
     = (Raised (OperationalError ''unable to open database file''), [])"
proof -
  have h: "unreachable_store (s_id alice_session) ''bills''
             = Inl (OperationalError ''unable to open database file'')"
    by (simp add: unreachable_store_def)
  from feature_guard_outcome [of unreachable_store "''bills''" alice_session] h
  show ?thesis by blast
qed

text \<open>
  Against claim C7 as stated: with that lookup the guard does not proceed to the
  view.
\<close>

theorem feature_guard_fails_closed_counterexample:
  "fst (feature_required unreachable_store ''bills'' (Some alice_session)) \<noteq> Proceed
   \<and> feature_required unreachable_store ''bills'' (Some alice_session)
     = (Raised (OperationalError ''unable to open database file''), [])"
  by (simp add: feature_required_def unreachable_store_def)

subsection \<open>Schema initialisation\<close>





























subsection \<open>Reconciliation: the three paths\<close>

lemma find_None_list_ex: "(find P xs = None) = (\<not> list_ex P xs)"
  by (induction xs) auto

lemma find_map: "find P (map f xs) = map_option f (find (\<lambda>x. P (f x)) xs)"
  by (induction xs) auto

lemma find_Some_holds: "find P xs = Some x \<Longrightarrow> P x"
  by (auto simp: find_Some_iff)

lemma find_id_exists:
  "find P xs = Some u \<Longrightarrow> \<exists>u0. find (\<lambda>r. u_id r = u_id u) xs = Some u0 \<and> u_id u0 = u_id u"
proof -
  assume "find P xs = Some u"
  then have "u \<in> set xs" by (auto simp: find_Some_iff)
  then have "find (\<lambda>r. u_id r = u_id u) xs \<noteq> None" by (auto simp: find_None_iff)
  then obtain u0 where "find (\<lambda>r. u_id r = u_id u) xs = Some u0" by auto
  then show ?thesis using find_Some_holds [of "\<lambda>r. u_id r = u_id u" xs u0] by auto
qed

lemma u_id_set_supabase_id [simp]: "u_id (set_supabase_id sid uid r) = u_id r"
  by (simp add: set_supabase_id_def)

lemma u_id_set_login [simp]: "u_id (set_login now fn adm uid r) = u_id r"
  by (simp add: set_login_def)

lemma primary_path:
  assumes "find (\<lambda>r. u_supabase_id r = Some (su_id su)) (users db) = Some u"
  shows "get_or_create_supabase_user db su ac now1 now2 =
     (Inr (Some u),
      \<lparr>db_file = db\<lparr>users := map (set_login now1 (full_name_of su) (is_admin_of su ac) (u_id u)) (users db)\<rparr>,
       working = db\<lparr>users := map (set_login now1 (full_name_of su) (is_admin_of su ac) (u_id u)) (users db)\<rparr>,
       closed = True,
       executed = [SelectBySupabaseId (su_id su),
                   UpdateLogin now1 (full_name_of su) (is_admin_of su ac) (u_id u), Commit, Close]\<rparr>)"
  using assms
  by (simp add: get_or_create_supabase_user_def Let_def get_connection_def select_by_supabase_id_def
      update_path_def update_login_def commit_def close_def full_name_of_def is_admin_of_def
      set_login_def [abs_def])

lemma create_path_full:
  assumes "find (\<lambda>r. u_supabase_id r = Some (su_id su)) (users db) = None"
      and "find (\<lambda>r. u_email r = su_email su) (users db) = None"
  shows "get_or_create_supabase_user db su ac now1 now2 =
     (Inl (AttributeError ''sqlite3.Connection object has no attribute lastrowid''),
      \<lparr>db_file = db,
       working = \<lparr>users = users db @
                    [\<lparr>u_id = Suc (fold max (map u_id (users db)) (users_seq db)),
                      u_username = Some (username_of su), u_email = su_email su,
                      u_full_name = Some (full_name_of su), u_is_admin = is_admin_of su ac,
                      u_supabase_id = Some (su_id su), u_last_login = Some now1,
                      u_created_at = Some now2, u_last_activity = None\<rparr>],
                  users_seq = Suc (fold max (map u_id (users db)) (users_seq db))\<rparr>,
       closed = False,
       executed = [SelectBySupabaseId (su_id su), SelectByEmail (su_email su),
                   InsertUser (username_of su) (su_email su) (full_name_of su) (su_id su)
                     (is_admin_of su ac) now1 now2]\<rparr>)"
proof -
  have n1: "\<not> list_ex (\<lambda>r. u_supabase_id r = Some (su_id su)) (users db)"
    using assms(1) by (simp add: find_None_list_ex)
  have n2: "\<not> list_ex (\<lambda>r. u_email r = su_email su) (users db)"
    using assms(2) by (simp add: find_None_list_ex)
  show ?thesis
    using assms n1 n2
    by (simp add: get_or_create_supabase_user_def Let_def get_connection_def
        select_by_supabase_id_def select_by_email_def create_path_def insert_user_def
        lastrowid_def full_name_of_def username_of_def is_admin_of_def)
qed

lemma fallback_path:
  assumes miss: "find (\<lambda>r. u_supabase_id r = Some (su_id su)) (users db) = None"
      and hit: "find (\<lambda>r. u_email r = su_email su) (users db) = Some u"
  shows "\<exists>u0. find (\<lambda>r. u_id r = u_id u) (users db) = Some u0 \<and> u_id u0 = u_id u \<and>
     get_or_create_supabase_user db su ac now1 now2 =
     (Inr (Some (u0\<lparr>u_supabase_id := Some (su_id su)\<rparr>)),
      \<lparr>db_file = db\<lparr>users := map (set_login now1 (full_name_of su) (is_admin_of su ac) (u_id u))
                               (map (set_supabase_id (su_id su) (u_id u)) (users db))\<rparr>,
       working = db\<lparr>users := map (set_login now1 (full_name_of su) (is_admin_of su ac) (u_id u))
                               (map (set_supabase_id (su_id su) (u_id u)) (users db))\<rparr>,
       closed = True,
       executed = [SelectBySupabaseId (su_id su), SelectByEmail (su_email su),
                   UpdateSupabaseId (su_id su) (u_id u), Commit, SelectById (u_id u),
                   UpdateLogin now1 (full_name_of su) (is_admin_of su ac) (u_id u), Commit, Close]\<rparr>)"
proof -
  from find_id_exists [OF hit] obtain u0 where
    u0: "find (\<lambda>r. u_id r = u_id u) (users db) = Some u0" and id0: "u_id u0 = u_id u" by blast
  have no: "\<not> list_ex (\<lambda>r. u_id r \<noteq> u_id u \<and> u_supabase_id r = Some (su_id su)) (users db)"
    using miss by (auto simp: find_None_iff list_ex_iff)
  have sel: "find (\<lambda>r. u_id r = u_id u) (map (set_supabase_id (su_id su) (u_id u)) (users db))
               = Some (u0\<lparr>u_supabase_id := Some (su_id su)\<rparr>)"
    by (simp add: find_map u_id_set_supabase_id u0) (simp add: set_supabase_id_def id0)
  show ?thesis
    using miss hit no sel u0 id0
    by (simp add: get_or_create_supabase_user_def Let_def get_connection_def select_by_supabase_id_def
      select_by_email_def select_by_id_def update_supabase_id_def
      update_path_def update_login_def commit_def close_def full_name_of_def is_admin_of_def
      set_login_def [abs_def] set_supabase_id_def [abs_def])
qed

lemma three_paths:
  obtains (primary) v where "find (\<lambda>r. u_supabase_id r = Some (su_id su)) (users db) = Some v"
  | (fallback) v where "find (\<lambda>r. u_supabase_id r = Some (su_id su)) (users db) = None"
      and "find (\<lambda>r. u_email r = su_email su) (users db) = Some v"
  | (create) "find (\<lambda>r. u_supabase_id r = Some (su_id su)) (users db) = None"
      and "find (\<lambda>r. u_email r = su_email su) (users db) = None"
  by (cases "find (\<lambda>r. u_supabase_id r = Some (su_id su)) (users db)";
      cases "find (\<lambda>r. u_email r = su_email su) (users db)") auto

lemma u_supabase_id_set_login [simp]:
  "u_supabase_id (set_login now fn adm uid r) = u_supabase_id r"
  by (simp add: set_login_def)

lemma map_u_id_set_login [simp]: "map u_id (map (set_login now fn adm uid) xs) = map u_id xs"
  by (induction xs) auto

lemma map_u_id_set_supabase_id [simp]: "map u_id (map (set_supabase_id sid uid) xs) = map u_id xs"
  by (induction xs) auto

lemma u_id_comp_set_login [simp]: "u_id \<circ> set_login now fn adm uid = u_id"
  by (rule ext) simp

lemma u_id_comp_set_supabase_id [simp]: "u_id \<circ> set_supabase_id sid uid = u_id"
  by (rule ext) simp

lemma u_id_comp_set_login_comp [simp]: "u_id \<circ> (set_login now fn adm uid \<circ> g) = u_id \<circ> g"
  by (rule ext) simp

lemma find_sid_set_login:
  "find (\<lambda>r. u_supabase_id r = Some sid) (map (set_login now fn adm uid) xs)
     = map_option (set_login now fn adm uid) (find (\<lambda>r. u_supabase_id r = Some sid) xs)"
  by (simp add: find_map)

lemma find_sid_after_backfill:
  assumes miss: "find (\<lambda>r. u_supabase_id r = Some sid) xs = None"
  shows "find (\<lambda>r. u_supabase_id r = Some sid) (map (set_supabase_id sid uid) xs)
           = map_option (set_supabase_id sid uid) (find (\<lambda>r. u_id r = uid) xs)"
proof -
  have "\<And>x. x \<in> set xs \<Longrightarrow>
          (u_supabase_id (set_supabase_id sid uid x) = Some sid) = (u_id x = uid)"
    using miss by (auto simp: set_supabase_id_def find_None_iff)
  then have "find (\<lambda>x. u_supabase_id (set_supabase_id sid uid x) = Some sid) xs
          = find (\<lambda>r. u_id r = uid) xs"
    by (rule find_cong [OF refl])
  then show ?thesis by (simp add: find_map)
qed

lemma later_calls:
  assumes "find (\<lambda>r. u_supabase_id r = Some sid) (users db) = Some v"
      and "list_all (\<lambda>c. su_id (fst c) = sid) calls"
  shows "list_all
           (\<lambda>r. (\<exists>w. fst r = Inr (Some w) \<and> u_id w = u_id v \<and> u_supabase_id w = Some sid)
               \<and> (\<exists>t n a. executed (snd r) =
                     [SelectBySupabaseId sid, UpdateLogin t n a (u_id v), Commit, Close])
               \<and> map u_id (users (db_file (snd r))) = map u_id (users db))
           (reconcile_seq db calls)"
  using assms
proof (induction calls arbitrary: db v)
  case Nil
  then show ?case by simp
next
  case (Cons c calls)
  obtain su ac now1 now2 where c: "c = (su, ac, now1, now2)" by (cases c) auto
  from Cons.prems have sid: "su_id su = sid" and rest: "list_all (\<lambda>c. su_id (fst c) = sid) calls"
    by (simp_all add: c)
  have hit: "find (\<lambda>r. u_supabase_id r = Some (su_id su)) (users db) = Some v"
    using Cons.prems(1) sid by simp
  let ?f = "set_login now1 (full_name_of su) (is_admin_of su ac) (u_id v)"
  let ?db' = "db\<lparr>users := map ?f (users db)\<rparr>"
  have r: "get_or_create_supabase_user db su ac now1 now2 =
      (Inr (Some v), \<lparr>db_file = ?db', working = ?db', closed = True,
         executed = [SelectBySupabaseId (su_id su),
                     UpdateLogin now1 (full_name_of su) (is_admin_of su ac) (u_id v), Commit, Close]\<rparr>)"
    by (rule primary_path [OF hit])
  have vs: "u_supabase_id v = Some sid"
    using find_Some_holds [OF Cons.prems(1)] .
  have hit': "find (\<lambda>r. u_supabase_id r = Some sid) (users ?db') = Some (?f v)"
    using Cons.prems(1) by (simp add: find_sid_set_login)
  have ih: "list_all
           (\<lambda>r. (\<exists>w. fst r = Inr (Some w) \<and> u_id w = u_id v \<and> u_supabase_id w = Some sid)
               \<and> (\<exists>t n a. executed (snd r) =
                     [SelectBySupabaseId sid, UpdateLogin t n a (u_id v), Commit, Close])
               \<and> map u_id (users (db_file (snd r))) = map u_id (users db))
           (reconcile_seq ?db' calls)"
    using Cons.IH [OF hit' rest] by simp
  show ?case
    using ih vs sid by (simp add: c r Let_def)
qed

lemma fallback_links:
  assumes miss: "find (\<lambda>r. u_supabase_id r = Some (su_id su)) (users db) = None"
      and hit: "find (\<lambda>r. u_email r = su_email su) (users db) = Some u"
  shows "\<exists>w v. fst (get_or_create_supabase_user db su ac now1 now2) = Inr (Some w)
           \<and> u_id w = u_id u \<and> u_supabase_id w = Some (su_id su)
           \<and> executed (snd (get_or_create_supabase_user db su ac now1 now2)) =
               [SelectBySupabaseId (su_id su), SelectByEmail (su_email su),
                UpdateSupabaseId (su_id su) (u_id u), Commit, SelectById (u_id u),
                UpdateLogin now1 (full_name_of su) (is_admin_of su ac) (u_id u), Commit, Close]
           \<and> users (db_file (snd (get_or_create_supabase_user db su ac now1 now2))) =
               map (set_login now1 (full_name_of su) (is_admin_of su ac) (u_id u))
                 (map (set_supabase_id (su_id su) (u_id u)) (users db))
           \<and> find (\<lambda>r. u_supabase_id r = Some (su_id su))
                 (users (db_file (snd (get_or_create_supabase_user db su ac now1 now2)))) = Some v
           \<and> u_id v = u_id u"
proof -
  let ?f = "set_login now1 (full_name_of su) (is_admin_of su ac) (u_id u)"
  let ?g = "set_supabase_id (su_id su) (u_id u)"
  let ?db' = "db\<lparr>users := map ?f (map ?g (users db))\<rparr>"
  from fallback_path [OF miss hit, of ac now1 now2] obtain u0 where
    u0: "find (\<lambda>r. u_id r = u_id u) (users db) = Some u0" and id0: "u_id u0 = u_id u"
    and r: "get_or_create_supabase_user db su ac now1 now2 =
     (Inr (Some (u0\<lparr>u_supabase_id := Some (su_id su)\<rparr>)),
      \<lparr>db_file = ?db', working = ?db', closed = True,
       executed = [SelectBySupabaseId (su_id su), SelectByEmail (su_email su),
                   UpdateSupabaseId (su_id su) (u_id u), Commit, SelectById (u_id u),
                   UpdateLogin now1 (full_name_of su) (is_admin_of su ac) (u_id u), Commit, Close]\<rparr>)"
    by blast
  have users': "users ?db' = map ?f (map ?g (users db))"
    by simp
  have hit': "find (\<lambda>r. u_supabase_id r = Some (su_id su)) (users ?db') = Some (?f (?g u0))"
    by (simp only: users' find_sid_set_login find_sid_after_backfill [OF miss] u0 option.map)
  show ?thesis
    apply (rule exI [of _ "u0\<lparr>u_supabase_id := Some (su_id su)\<rparr>"])
    apply (rule exI [of _ "?f (?g u0)"])
    using hit' id0 by (simp del: map_map add: r)
qed

lemma frame_set_login [simp]: "frame (set_login now fn adm uid r) = frame r"
  by (simp add: frame_def set_login_def)

lemma frame_set_supabase_id [simp]: "frame (set_supabase_id sid uid r) = frame r"
  by (simp add: frame_def set_supabase_id_def)

lemma others_map_set_login:
  "map (\<lambda>r. if u_id r = uid then None else Some r) (map (set_login now fn adm uid) xs)
     = map (\<lambda>r. if u_id r = uid then None else Some r) xs"
  by (induction xs) (simp_all add: set_login_def set_supabase_id_def)

lemma others_map_set_supabase_id:
  "map (\<lambda>r. if u_id r = uid then None else Some r) (map (set_supabase_id sid uid) xs)
     = map (\<lambda>r. if u_id r = uid then None else Some r) xs"
  by (induction xs) (simp_all add: set_login_def set_supabase_id_def)

lemma frame_map_set_login: "map frame (map (set_login now fn adm uid) xs) = map frame xs"
  by (induction xs) simp_all

lemma frame_map_set_supabase_id: "map frame (map (set_supabase_id sid uid) xs) = map frame xs"
  by (induction xs) simp_all

lemma sid_map_set_login:
  "map u_supabase_id (map (set_login now fn adm uid) xs) = map u_supabase_id xs"
  by (induction xs) simp_all

lemma admin_after_set_login:
  "list_all (\<lambda>x. u_id x = uid \<longrightarrow> u_is_admin x = adm) (map (set_login now fn adm uid) xs)"
  by (induction xs) (simp_all add: set_login_def)

lemma lower_alice: "str_lower ''a@x.com'' = ''a@x.com''"
  by code_simp

lemma local_part_alice: "local_part ''a@x.com'' = ''a''"
  by code_simp

lemma new_identity_derived:
  "full_name_of new_identity = ''a''" "username_of new_identity = ''a''"
  "is_admin_of new_identity open_policy = False" "is_admin_of new_identity admin_policy = True"
  by (simp_all add: full_name_of_def username_of_def is_admin_of_def new_identity_def
      open_policy_def admin_policy_def dict_get_def local_part_alice lower_alice)

subsection \<open>Reconciliation of an identity the store knows\<close>

text \<open>
  Claim C6. Where no row carries the external id of the identity and \<open>u\<close> is the row
  found by its e-mail (a row without an external id, or with another one): the call returns that row
  with the external id set, executes exactly one \<^verbatim>\<open>UPDATE\<close> of \<^verbatim>\<open>supabase_id\<close> and no
  \<^verbatim>\<open>INSERT\<close>, and leaves the same rows, with the external id set on the rows of that id
  and on no other. Every later call for the same external id, whatever its e-mail,
  policy and time, executes the lookup by external id, the login \<^verbatim>\<open>UPDATE\<close>, a commit
  and a close, and nothing else, and returns the row of the same id.
\<close>

theorem backfill_once:
  assumes miss: "find (\<lambda>r. u_supabase_id r = Some (su_id su)) (users db) = None"
      and hit: "find (\<lambda>r. u_email r = su_email su) (users db) = Some u"
      and later: "list_all (\<lambda>c. su_id (fst c) = su_id su) calls"
  shows "(\<exists>w. fst (get_or_create_supabase_user db su ac now1 now2) = Inr (Some w)
             \<and> u_id w = u_id u \<and> u_supabase_id w = Some (su_id su))
       \<and> (\<exists>n a. executed (snd (get_or_create_supabase_user db su ac now1 now2)) =
             [SelectBySupabaseId (su_id su), SelectByEmail (su_email su),
              UpdateSupabaseId (su_id su) (u_id u), Commit, SelectById (u_id u),
              UpdateLogin now1 n a (u_id u), Commit, Close])
       \<and> map u_id (users (db_file (snd (get_or_create_supabase_user db su ac now1 now2))))
           = map u_id (users db)
       \<and> map u_supabase_id (users (db_file (snd (get_or_create_supabase_user db su ac now1 now2))))
           = map (\<lambda>r. if u_id r = u_id u then Some (su_id su) else u_supabase_id r) (users db)
       \<and> list_all
           (\<lambda>r. (\<exists>w. fst r = Inr (Some w) \<and> u_id w = u_id u \<and> u_supabase_id w = Some (su_id su))
               \<and> (\<exists>t n a. executed (snd r) =
                     [SelectBySupabaseId (su_id su), UpdateLogin t n a (u_id u), Commit, Close])
               \<and> map u_id (users (db_file (snd r))) = map u_id (users db))
           (tl (reconcile_seq db ((su, ac, now1, now2) # calls)))"
proof -
  from fallback_links [OF miss hit, of ac now1 now2] obtain w v where
    w: "fst (get_or_create_supabase_user db su ac now1 now2) = Inr (Some w)"
       "u_id w = u_id u" "u_supabase_id w = Some (su_id su)"
    and ex: "executed (snd (get_or_create_supabase_user db su ac now1 now2)) =
               [SelectBySupabaseId (su_id su), SelectByEmail (su_email su),
                UpdateSupabaseId (su_id su) (u_id u), Commit, SelectById (u_id u),
                UpdateLogin now1 (full_name_of su) (is_admin_of su ac) (u_id u), Commit, Close]"
    and us: "users (db_file (snd (get_or_create_supabase_user db su ac now1 now2))) =
               map (set_login now1 (full_name_of su) (is_admin_of su ac) (u_id u))
                 (map (set_supabase_id (su_id su) (u_id u)) (users db))"
    and v: "find (\<lambda>r. u_supabase_id r = Some (su_id su))
                 (users (db_file (snd (get_or_create_supabase_user db su ac now1 now2)))) = Some v"
           "u_id v = u_id u"
    by blast
  have ids: "map u_id (users (db_file (snd (get_or_create_supabase_user db su ac now1 now2))))
               = map u_id (users db)"
    by (simp add: us)
  have sids: "map u_supabase_id (users (db_file (snd (get_or_create_supabase_user db su ac now1 now2))))
        = map (\<lambda>r. if u_id r = u_id u then Some (su_id su) else u_supabase_id r) (users db)"
    by (simp add: us set_supabase_id_def)
  from later_calls [OF v(1) later] have rest:
    "list_all
           (\<lambda>r. (\<exists>w. fst r = Inr (Some w) \<and> u_id w = u_id u \<and> u_supabase_id w = Some (su_id su))
               \<and> (\<exists>t n a. executed (snd r) =
                     [SelectBySupabaseId (su_id su), UpdateLogin t n a (u_id u), Commit, Close])
               \<and> map u_id (users (db_file (snd r))) = map u_id (users db))
           (reconcile_seq (db_file (snd (get_or_create_supabase_user db su ac now1 now2))) calls)"
    by (simp add: v(2) ids)
  show ?thesis
    using w ex ids sids rest by (simp add: Let_def)
qed

text \<open>
  The theorem on the store of the older installation, followed by two more logins of
  the same identity.
\<close>

theorem backfill_once_witness:
  "find (\<lambda>r. u_supabase_id r = Some (su_id new_identity)) (users legacy_db) = None
   \<and> find (\<lambda>r. u_email r = su_email new_identity) (users legacy_db) = Some legacy_row
   \<and> u_supabase_id legacy_row = None
   \<and> list_all (\<lambda>c. su_id (fst c) = su_id new_identity)
       [(new_identity, open_policy, ''t3'', ''t4''), (new_identity, admin_policy, ''t5'', ''t6'')]
   \<and> map u_supabase_id
        (users (db_file (snd (get_or_create_supabase_user legacy_db new_identity open_policy
                                ''t1'' ''t2''))))
       = [Some ''u1'']
   \<and> list_all
        (\<lambda>r. \<exists>t n a. executed (snd r) =
                 [SelectBySupabaseId ''u1'', UpdateLogin t n a 1, Commit, Close])
        (tl (reconcile_seq legacy_db
               [(new_identity, open_policy, ''t1'', ''t2''),
                (new_identity, open_policy, ''t3'', ''t4''),
                (new_identity, admin_policy, ''t5'', ''t6'')]))"
proof -
  have h1: "find (\<lambda>r. u_supabase_id r = Some (su_id new_identity)) (users legacy_db) = None"
    by (simp add: legacy_db_def legacy_row_def)
  have h2: "find (\<lambda>r. u_email r = su_email new_identity) (users legacy_db) = Some legacy_row"
    by (simp add: legacy_db_def legacy_row_def new_identity_def)
  have h3: "u_supabase_id legacy_row = None"
    by (simp add: legacy_row_def)
  have h4: "list_all (\<lambda>c. su_id (fst c) = su_id new_identity)
       [(new_identity, open_policy, ''t3'', ''t4''), (new_identity, admin_policy, ''t5'', ''t6'')]"
    by simp
  have v: "users legacy_db = [legacy_row]" "u_id legacy_row = 1" "su_id new_identity = ''u1''"
    by (simp_all add: legacy_db_def legacy_row_def new_identity_def)
  note t = backfill_once [OF h1 h2 h4, of open_policy "''t1''" "''t2''"]
  have a: "map u_supabase_id
        (users (db_file (snd (get_or_create_supabase_user legacy_db new_identity open_policy
                                ''t1'' ''t2''))))
       = [Some ''u1'']"
    using t v h3 by simp
  have b: "list_all
        (\<lambda>r. \<exists>t n a. executed (snd r) =
                 [SelectBySupabaseId ''u1'', UpdateLogin t n a 1, Commit, Close])
        (tl (reconcile_seq legacy_db
               [(new_identity, open_policy, ''t1'', ''t2''),
                (new_identity, open_policy, ''t3'', ''t4''),
                (new_identity, admin_policy, ''t5'', ''t6'')]))"
    using t unfolding v by (elim conjE) (erule list.pred_mono_strong, blast)
  show ?thesis using h1 h2 h3 h4 a b by (intro conjI)
qed

text \<open>
  Claim C9. When the identity is found, by external id or by e-mail, the committed
  rows keep their \<^verbatim>\<open>id\<close>, \<^verbatim>\<open>username\<close>, \<^verbatim>\<open>email\<close>, \<^verbatim>\<open>created_at\<close> and
  \<^verbatim>\<open>last_activity\<close>, and every row but the ones with the matched id is unchanged
  altogether; when it is found by external id, \<^verbatim>\<open>supabase_id\<close> is unchanged too. On
  every path the rows that were there are still there, in the file and in the view of
  the connection: no row is deleted.
\<close>

theorem reconcile_frame:
  "(let conn = snd (get_or_create_supabase_user db su ac now1 now2)
    in (find (\<lambda>r. u_supabase_id r = Some (su_id su)) (users db) \<noteq> None
          \<or> find (\<lambda>r. u_email r = su_email su) (users db) \<noteq> None \<longrightarrow>
          map frame (users (db_file conn)) = map frame (users db)
          \<and> (\<exists>uid. map (\<lambda>r. if u_id r = uid then None else Some r) (users (db_file conn))
                   = map (\<lambda>r. if u_id r = uid then None else Some r) (users db)))
     \<and> (find (\<lambda>r. u_supabase_id r = Some (su_id su)) (users db) \<noteq> None \<longrightarrow>
          map u_supabase_id (users (db_file conn)) = map u_supabase_id (users db))
     \<and> take (length (users db)) (map frame (users (db_file conn))) = map frame (users db)
     \<and> take (length (users db)) (map frame (users (working conn))) = map frame (users db))"
proof -
  let ?conn = "snd (get_or_create_supabase_user db su ac now1 now2)"
  have "(\<exists>uid. users (db_file ?conn) = map (set_login now1 (full_name_of su) (is_admin_of su ac) uid) (users db)
              \<and> working ?conn = db_file ?conn
              \<and> find (\<lambda>r. u_supabase_id r = Some (su_id su)) (users db) \<noteq> None)
      \<or> (\<exists>uid. users (db_file ?conn) =
                  map (set_login now1 (full_name_of su) (is_admin_of su ac) uid)
                    (map (set_supabase_id (su_id su) uid) (users db))
              \<and> working ?conn = db_file ?conn
              \<and> find (\<lambda>r. u_supabase_id r = Some (su_id su)) (users db) = None)
      \<or> (db_file ?conn = db \<and> (\<exists>row. users (working ?conn) = users db @ [row])
           \<and> find (\<lambda>r. u_supabase_id r = Some (su_id su)) (users db) = None
           \<and> find (\<lambda>r. u_email r = su_email su) (users db) = None)"
  proof (cases rule: three_paths [of su db])
    case (primary v)
    show ?thesis by (rule disjI1, rule exI [of _ "u_id v"]) (simp add: primary_path [OF primary] primary)
  next
    case (fallback v)
    from fallback_path [OF fallback, of ac now1 now2] obtain u0 where
      "get_or_create_supabase_user db su ac now1 now2 =
       (Inr (Some (u0\<lparr>u_supabase_id := Some (su_id su)\<rparr>)),
        \<lparr>db_file = db\<lparr>users := map (set_login now1 (full_name_of su) (is_admin_of su ac) (u_id v))
                               (map (set_supabase_id (su_id su) (u_id v)) (users db))\<rparr>,
         working = db\<lparr>users := map (set_login now1 (full_name_of su) (is_admin_of su ac) (u_id v))
                               (map (set_supabase_id (su_id su) (u_id v)) (users db))\<rparr>,
         closed = True,
         executed = [SelectBySupabaseId (su_id su), SelectByEmail (su_email su),
                   UpdateSupabaseId (su_id su) (u_id v), Commit, SelectById (u_id v),
                   UpdateLogin now1 (full_name_of su) (is_admin_of su ac) (u_id v), Commit, Close]\<rparr>)"
      by blast
    then show ?thesis
      by (intro disjI2 disjI1 exI [of _ "u_id v"]) (simp del: map_map add: fallback(1))
  next
    case create
    show ?thesis
      by (intro disjI2) (simp add: create_path_full [OF create] create)
  qed
  then consider
      (primary) uid where
        "users (db_file ?conn) = map (set_login now1 (full_name_of su) (is_admin_of su ac) uid) (users db)"
        "working ?conn = db_file ?conn"
        "find (\<lambda>r. u_supabase_id r = Some (su_id su)) (users db) \<noteq> None"
    | (fallback) uid where
        "users (db_file ?conn) =
                  map (set_login now1 (full_name_of su) (is_admin_of su ac) uid)
                    (map (set_supabase_id (su_id su) uid) (users db))"
        "working ?conn = db_file ?conn"
        "find (\<lambda>r. u_supabase_id r = Some (su_id su)) (users db) = None"
    | (create) row where "db_file ?conn = db" "users (working ?conn) = users db @ [row]"
        "find (\<lambda>r. u_supabase_id r = Some (su_id su)) (users db) = None"
        "find (\<lambda>r. u_email r = su_email su) (users db) = None"
    by blast
  then show ?thesis
  proof cases
    case primary
    have "\<exists>uid'. map (\<lambda>r. if u_id r = uid' then None else Some r) (users (db_file ?conn))
                   = map (\<lambda>r. if u_id r = uid' then None else Some r) (users db)"
      by (rule exI [of _ uid]) (simp only: primary(1) others_map_set_login)
    then show ?thesis
      unfolding Let_def
      by (simp only: primary(1,2) frame_map_set_login sid_map_set_login length_map take_all
            order_refl simp_thms)
  next
    case fallback
    have "\<exists>uid'. map (\<lambda>r. if u_id r = uid' then None else Some r) (users (db_file ?conn))
                   = map (\<lambda>r. if u_id r = uid' then None else Some r) (users db)"
      by (rule exI [of _ uid])
         (simp only: fallback(1) others_map_set_login others_map_set_supabase_id)
    then show ?thesis
      unfolding Let_def
      by (simp only: fallback frame_map_set_login frame_map_set_supabase_id length_map take_all
            order_refl simp_thms not_None_eq option.simps)
  next
    case create
    show ?thesis
      unfolding Let_def by (simp add: create)
  qed
qed

text \<open>The theorem on the store where Alice is found by her external id.\<close>

theorem reconcile_frame_witness:
  "find (\<lambda>r. u_supabase_id r = Some (su_id new_identity)) (users alice_db) \<noteq> None
   \<and> map frame (users (db_file (snd (get_or_create_supabase_user alice_db new_identity
                                        admin_policy ''t1'' ''t2''))))
       = [frame alice_row]
   \<and> map u_supabase_id (users (db_file (snd (get_or_create_supabase_user alice_db new_identity
                                        admin_policy ''t1'' ''t2''))))
       = [Some ''u1'']"
proof -
  have h: "find (\<lambda>r. u_supabase_id r = Some (su_id new_identity)) (users alice_db) \<noteq> None"
    by (simp add: alice_db_def alice_row_def new_identity_def)
  have v: "users alice_db = [alice_row]" "u_supabase_id alice_row = Some ''u1''"
    by (simp_all add: alice_db_def alice_row_def)
  from reconcile_frame [of alice_db new_identity admin_policy "''t1''" "''t2''"] h v
  show ?thesis by (simp add: Let_def)
qed

text \<open>
  For an identity the store knows, by external id or by e-mail, two calls in sequence
  return rows of the same id; the second executes the lookup by external id, the login
  \<^verbatim>\<open>UPDATE\<close>, a commit and a close, and the store has the rows it had.
\<close>

theorem known_identity_idempotent:
  assumes "find (\<lambda>r. u_supabase_id r = Some (su_id su)) (users db) \<noteq> None
           \<or> find (\<lambda>r. u_email r = su_email su) (users db) \<noteq> None"
  shows "\<exists>w1 w2.
           fst (get_or_create_supabase_user db su ac now1 now2) = Inr (Some w1)
         \<and> fst (get_or_create_supabase_user
                  (db_file (snd (get_or_create_supabase_user db su ac now1 now2)))
                  su ac' now3 now4) = Inr (Some w2)
         \<and> u_id w1 = u_id w2
         \<and> map u_id (users (db_file (snd (get_or_create_supabase_user
                  (db_file (snd (get_or_create_supabase_user db su ac now1 now2)))
                  su ac' now3 now4)))) = map u_id (users db)
         \<and> (\<exists>t n a. executed (snd (get_or_create_supabase_user
                  (db_file (snd (get_or_create_supabase_user db su ac now1 now2)))
                  su ac' now3 now4)) =
               [SelectBySupabaseId (su_id su), UpdateLogin t n a (u_id w1), Commit, Close])"
proof (cases rule: three_paths [of su db])
  case (primary v)
  have "list_all (\<lambda>c. su_id (fst c) = su_id su) [(su, ac, now1, now2), (su, ac', now3, now4)]"
    by simp
  from later_calls [OF primary this] show ?thesis
    by (auto simp: Let_def)
next
  case (fallback v)
  have "list_all (\<lambda>c. su_id (fst c) = su_id su) [(su, ac', now3, now4)]"
    by simp
  from fallback_links [OF fallback, of ac now1 now2] obtain w x where
    w: "fst (get_or_create_supabase_user db su ac now1 now2) = Inr (Some w)" "u_id w = u_id v"
    and us: "users (db_file (snd (get_or_create_supabase_user db su ac now1 now2))) =
               map (set_login now1 (full_name_of su) (is_admin_of su ac) (u_id v))
                 (map (set_supabase_id (su_id su) (u_id v)) (users db))"
    and x: "find (\<lambda>r. u_supabase_id r = Some (su_id su))
                 (users (db_file (snd (get_or_create_supabase_user db su ac now1 now2)))) = Some x"
           "u_id x = u_id v"
    by blast
  have ids: "map u_id (users (db_file (snd (get_or_create_supabase_user db su ac now1 now2))))
               = map u_id (users db)"
    by (simp add: us)
  from later_calls [OF x(1) \<open>list_all (\<lambda>c. su_id (fst c) = su_id su) [(su, ac', now3, now4)]\<close>]
  show ?thesis
    using w x(2) ids by (auto simp: Let_def)
next
  case create
  with assms show ?thesis by simp
qed

text \<open>The theorem on the store where Alice is linked.\<close>

theorem known_identity_idempotent_witness:
  "find (\<lambda>r. u_supabase_id r = Some (su_id new_identity)) (users alice_db) \<noteq> None
   \<and> (\<exists>w1 w2.
           fst (get_or_create_supabase_user alice_db new_identity open_policy ''t1'' ''t2'')
             = Inr (Some w1)
         \<and> fst (get_or_create_supabase_user
                  (db_file (snd (get_or_create_supabase_user alice_db new_identity open_policy
                                   ''t1'' ''t2'')))
                  new_identity admin_policy ''t3'' ''t4'') = Inr (Some w2)
         \<and> u_id w1 = u_id w2)"
proof -
  have h: "find (\<lambda>r. u_supabase_id r = Some (su_id new_identity)) (users alice_db) \<noteq> None"
    by (simp add: alice_db_def alice_row_def new_identity_def)
  then have "find (\<lambda>r. u_supabase_id r = Some (su_id new_identity)) (users alice_db) \<noteq> None
           \<or> find (\<lambda>r. u_email r = su_email new_identity) (users alice_db) \<noteq> None"
    by simp
  from known_identity_idempotent [OF this, of open_policy "''t1''" "''t2''" admin_policy "''t3''" "''t4''"] h
  show ?thesis by blast
qed

text \<open>
  Whenever the call returns a row, the stored row of that id has the admin flag the
  policy gives the e-mail of the identity, whatever was stored before.
\<close>

theorem stored_admin_flag_recomputed:
  assumes "fst (get_or_create_supabase_user db su ac now1 now2) = Inr (Some w)"
  shows "list_all (\<lambda>x. u_id x = u_id w \<longrightarrow>
                       u_is_admin x = (str_lower (su_email su) \<in> set (admin_emails ac)))
           (users (db_file (snd (get_or_create_supabase_user db su ac now1 now2))))
       \<and> list_ex (\<lambda>x. u_id x = u_id w)
           (users (db_file (snd (get_or_create_supabase_user db su ac now1 now2))))"
proof (cases rule: three_paths [of su db])
  case (primary v)
  have w: "w = v" using assms by (simp add: primary_path [OF primary])
  have "v \<in> set (users db)" using primary by (auto simp: find_Some_iff)
  then have "list_ex (\<lambda>x. u_id x = u_id v) (users db)" by (auto simp: list_ex_iff)
  then have "list_ex (\<lambda>x. u_id x = u_id v)
               (map (set_login now1 (full_name_of su) (is_admin_of su ac) (u_id v)) (users db))"
    by (simp add: list_ex_iff)
  then show ?thesis
    using admin_after_set_login [of "u_id v" "is_admin_of su ac" now1 "full_name_of su" "users db"]
    by (simp add: primary_path [OF primary] w is_admin_of_def)
next
  case (fallback v)
  from fallback_path [OF fallback, of ac now1 now2] obtain u0 where
    u0: "find (\<lambda>r. u_id r = u_id v) (users db) = Some u0" and id0: "u_id u0 = u_id v"
    and r: "get_or_create_supabase_user db su ac now1 now2 =
     (Inr (Some (u0\<lparr>u_supabase_id := Some (su_id su)\<rparr>)),
      \<lparr>db_file = db\<lparr>users := map (set_login now1 (full_name_of su) (is_admin_of su ac) (u_id v))
                               (map (set_supabase_id (su_id su) (u_id v)) (users db))\<rparr>,
       working = db\<lparr>users := map (set_login now1 (full_name_of su) (is_admin_of su ac) (u_id v))
                               (map (set_supabase_id (su_id su) (u_id v)) (users db))\<rparr>,
       closed = True,
       executed = [SelectBySupabaseId (su_id su), SelectByEmail (su_email su),
                   UpdateSupabaseId (su_id su) (u_id v), Commit, SelectById (u_id v),
                   UpdateLogin now1 (full_name_of su) (is_admin_of su ac) (u_id v), Commit, Close]\<rparr>)"
    by blast
  have w: "u_id w = u_id v" using assms id0 by (auto simp: r)
  have "u0 \<in> set (users db)" using u0 by (auto simp: find_Some_iff)
  then have "list_ex (\<lambda>x. u_id x = u_id v) (users db)" using id0 by (auto simp: list_ex_iff)
  then have ex: "list_ex (\<lambda>x. u_id x = u_id v)
               (map (set_login now1 (full_name_of su) (is_admin_of su ac) (u_id v))
                  (map (set_supabase_id (su_id su) (u_id v)) (users db)))"
    by (simp add: list_ex_iff)
  have users': "users (db_file (snd (get_or_create_supabase_user db su ac now1 now2)))
      = map (set_login now1 (full_name_of su) (is_admin_of su ac) (u_id v))
                  (map (set_supabase_id (su_id su) (u_id v)) (users db))"
    by (simp add: r)
  show ?thesis
    unfolding users' w
    using ex admin_after_set_login [of "u_id v" "is_admin_of su ac" now1 "full_name_of su"
        "map (set_supabase_id (su_id su) (u_id v)) (users db)"]
    by (simp only: is_admin_of_def simp_thms)
next
  case create
  with assms show ?thesis by (simp add: create_path_full [OF create])
qed

text \<open>The theorem where Alice, stored as no administrator, logs in as one.\<close>

theorem stored_admin_flag_recomputed_witness:
  "fst (get_or_create_supabase_user alice_db new_identity admin_policy ''t1'' ''t2'')
     = Inr (Some alice_row)
   \<and> u_is_admin alice_row = False
   \<and> list_all (\<lambda>x. u_id x = u_id alice_row \<longrightarrow> u_is_admin x = True)
       (users (db_file (snd (get_or_create_supabase_user alice_db new_identity admin_policy
                               ''t1'' ''t2''))))"
proof -
  have h: "find (\<lambda>r. u_supabase_id r = Some (su_id new_identity)) (users alice_db) = Some alice_row"
    by (simp add: alice_db_def alice_row_def new_identity_def)
  have r: "fst (get_or_create_supabase_user alice_db new_identity admin_policy ''t1'' ''t2'')
     = Inr (Some alice_row)"
    by (simp add: primary_path [OF h])
  have a: "(str_lower (su_email new_identity) \<in> set (admin_emails admin_policy)) = True"
    by (simp add: new_identity_def admin_policy_def lower_alice)
  have b: "u_is_admin alice_row = False" by (simp add: alice_row_def)
  from stored_admin_flag_recomputed [OF r] show ?thesis
    unfolding a using r b by blast
qed

subsection \<open>Reconciliation: first logins, stale rows and failures\<close>

text \<open>
  Claim C2, at a first login. On the empty store the call for the new identity
  (\<^verbatim>\<open>u1\<close>, \<^verbatim>\<open>a@x.com\<close>) returns no row: after the \<^verbatim>\<open>INSERT\<close>, \<^verbatim>\<open>conn.lastrowid\<close> raises
  \<^verbatim>\<open>AttributeError\<close>, before \<^verbatim>\<open>conn.commit()\<close>. The file is left as it was, so the second
  call in sequence raises in the same way.
\<close>

theorem reconcile_new_identity_raises:
  "fst (get_or_create_supabase_user empty_db new_identity open_policy ''t1'' ''t2'')
     = Inl (AttributeError ''sqlite3.Connection object has no attribute lastrowid'')
   \<and> db_file (snd (get_or_create_supabase_user empty_db new_identity open_policy ''t1'' ''t2''))
     = empty_db
   \<and> fst (get_or_create_supabase_user
            (db_file (snd (get_or_create_supabase_user empty_db new_identity open_policy ''t1'' ''t2'')))
            new_identity open_policy ''t3'' ''t4'')
     = Inl (AttributeError ''sqlite3.Connection object has no attribute lastrowid'')"
proof -
  have m1: "find (\<lambda>r. u_supabase_id r = Some (su_id new_identity)) (users empty_db) = None"
    by (simp add: empty_db_def)
  have m2: "find (\<lambda>r. u_email r = su_email new_identity) (users empty_db) = None"
    by (simp add: empty_db_def)
  show ?thesis
    by (simp add: create_path_full [OF m1 m2])
qed

text \<open>
  Claim C4, at two inputs, under a policy that makes \<^verbatim>\<open>a@x.com\<close> an administrator.
  Where Alice's row is stored with \<^verbatim>\<open>is_admin\<close> false, the call sets the stored flag
  but returns the row as it was fetched before the \<^verbatim>\<open>UPDATE\<close>, with \<^verbatim>\<open>is_admin\<close> false.
  On the empty store the call raises and stores nothing.
\<close>

theorem reconcile_returns_stale_admin_flag:
  "str_lower (su_email new_identity) \<in> set (admin_emails admin_policy)
   \<and> fst (get_or_create_supabase_user alice_db new_identity admin_policy ''t1'' ''t2'')
       = Inr (Some alice_row)
   \<and> u_is_admin alice_row = False
   \<and> map u_is_admin
       (users (db_file (snd (get_or_create_supabase_user alice_db new_identity admin_policy ''t1'' ''t2''))))
       = [True]
   \<and> fst (get_or_create_supabase_user empty_db new_identity admin_policy ''t1'' ''t2'')
       = Inl (AttributeError ''sqlite3.Connection object has no attribute lastrowid'')
   \<and> users (db_file (snd (get_or_create_supabase_user empty_db new_identity admin_policy ''t1'' ''t2'')))
       = []"
proof -
  have h: "find (\<lambda>r. u_supabase_id r = Some (su_id new_identity)) (users alice_db) = Some alice_row"
    by (simp add: alice_db_def alice_row_def new_identity_def)
  have m1: "find (\<lambda>r. u_supabase_id r = Some (su_id new_identity)) (users empty_db) = None"
    by (simp add: empty_db_def)
  have m2: "find (\<lambda>r. u_email r = su_email new_identity) (users empty_db) = None"
    by (simp add: empty_db_def)
  have a: "str_lower (su_email new_identity) \<in> set (admin_emails admin_policy)"
    by (simp add: new_identity_def admin_policy_def lower_alice)
  have b: "u_is_admin alice_row = False" "users alice_db = [alice_row]" "u_id alice_row = 1"
    "users empty_db = []"
    by (simp_all add: alice_row_def alice_db_def empty_db_def)
  show ?thesis
    using a b
    by (simp add: primary_path [OF h] create_path_full [OF m1 m2] new_identity_derived set_login_def)
qed






end
